theory Spec2Isabelle
  imports Main
begin

section \<open>Schedules, times and room identifiers\<close>

text \<open>
  The entry point \<^verbatim>\<open>main.go\<close> starts a background goroutine, \<^verbatim>\<open>manageChatRooms\<close>,
  that wakes up on a one-minute ticker, reads class schedules from the database and asks
  the chat manager to delete rooms.

  A \<^verbatim>\<open>time.Time\<close> is modelled as an integer count of nanoseconds and a
  \<^verbatim>\<open>time.Duration\<close> as an integer number of nanoseconds, so \<^verbatim>\<open>t.Add(d)\<close> is \<open>t + d\<close> and
  \<^verbatim>\<open>a.After(b)\<close> is \<open>b < a\<close>.
\<close>

type_synonym time = int

definition Minute :: int where
  "Minute = 60000000000"

text \<open>
  \<^verbatim>\<open>models.ClassSchedule\<close>: the reconciler reads the field \<^verbatim>\<open>ID\<close> and \<^verbatim>\<open>EndedAt\<close> and
  queries the columns \<^verbatim>\<open>started_at\<close> and \<^verbatim>\<open>ended_at\<close>. Identifiers of the models are
  Go \<^verbatim>\<open>uint\<close> (as in \<^verbatim>\<open>models.ClassCode\<close>): natural numbers, on which no arithmetic is done.
\<close>

record ClassSchedule =
  ID :: nat
  StartedAt :: time
  EndedAt :: time

subsection \<open>\<^verbatim>\<open>fmt.Sprintf("class_%d", schedule.ID)\<close>\<close>

text \<open>
  The verb \<^verbatim>\<open>%d\<close> on an unsigned integer runs the loop of \<^verbatim>\<open>fmtInteger\<close> of Go's
  \<^verbatim>\<open>fmt\<close> package: while \<^verbatim>\<open>u >= 10\<close> it stores the digit of \<^verbatim>\<open>u - (u/10)*10\<close> in front of the
  buffer and continues with \<^verbatim>\<open>u/10\<close>; the last digit is \<^verbatim>\<open>digits[u]\<close>.
\<close>

definition ldigits :: string where
  "ldigits = ''0123456789''"

function fmtInteger :: "nat \<Rightarrow> string \<Rightarrow> string" where
  "fmtInteger u buf =
     (if 10 \<le> u then fmtInteger (u div 10) ((ldigits ! (u mod 10)) # buf)
      else (ldigits ! u) # buf)"
  by pat_completeness auto
termination
  by (relation "measure (\<lambda>(u, buf). u)") auto

declare fmtInteger.simps [simp del]

definition Sprintf_class_d :: "nat \<Rightarrow> string" where
  "Sprintf_class_d n = ''class_'' @ fmtInteger n []"

text \<open>
  The value a string of decimal digits denotes, read from its last character, which is
  what "the decimal rendering of n" must give back.
\<close>

definition digit_value :: "char \<Rightarrow> nat" where
  "digit_value c = of_char c - 48"

fun rev_value :: "string \<Rightarrow> nat" where
  "rev_value [] = 0"
| "rev_value (c # cs) = digit_value c + 10 * rev_value cs"

definition decimal_value :: "string \<Rightarrow> nat" where
  "decimal_value s = rev_value (rev s)"

definition is_digit :: "char \<Rightarrow> bool" where
  "is_digit c = (c \<in> set ldigits)"

section \<open>The database query and the chat manager\<close>

text \<open>
  Errors of the Go libraries that \<^verbatim>\<open>main.go\<close> calls, and the error kinds of the spec with
  the status codes the spec maps them to (NotFound to 404, Conflict to 409, Unauthorized
  to 401, Unavailable still 200).
\<close>

datatype go_error = DBError | FileError

datatype error = NotFound | Conflict | Unauthorized | Unavailable

text \<open>
  Modelled from the spec: the status code of each error kind.
\<close>

definition status_code :: "error \<Rightarrow> nat" where
  "status_code e =
     (case e of NotFound \<Rightarrow> 404 | Conflict \<Rightarrow> 409 | Unauthorized \<Rightarrow> 401 | Unavailable \<Rightarrow> 200)"

text \<open>
  The lines of the process log are a datatype (the messages of \<^verbatim>\<open>main.go\<close> are Japanese
  text). The last one is the error record that gorm's logger prints for a query that
  failed.
\<close>

datatype log_line =
    EnvFileNotLoaded
  | EnvVarNotSet string
  | DatabaseInitFailed
  | RedisInitFailed
  | GormErrorRecord go_error

text \<open>
  The \<^verbatim>\<open>gorm\<close> handle: the rows of the schedule table and whether a query can reach the
  database. The query of \<^verbatim>\<open>manageChatRooms\<close> is
  \<^verbatim>\<open>Where("started_at <= ? AND started_at >= ?", now.Add(5*time.Minute), now)
  .Or("ended_at <= ? AND ended_at >= ?", now, now.Add(-10*time.Minute)).Find(&schedules)\<close>.

  The comparison runs in MySQL, at microsecond precision: the driver writes each
  \<^verbatim>\<open>time.Time\<close> argument with six fractional digits, cutting off the nanoseconds below
  the microsecond, and a stored \<^verbatim>\<open>datetime\<close> has no digits below the microsecond.
\<close>

record gorm_DB =
  class_schedules :: "ClassSchedule list"
  connected :: bool

definition microseconds :: "time \<Rightarrow> time" where
  "microseconds t = t div 1000 * 1000"

definition query_selects :: "time \<Rightarrow> ClassSchedule \<Rightarrow> bool" where
  "query_selects now s =
     ((StartedAt s \<le> microseconds (now + 5 * Minute) \<and> StartedAt s \<ge> microseconds now)
      \<or> (EndedAt s \<le> microseconds now \<and> EndedAt s \<ge> microseconds (now + (- 10) * Minute)))"

text \<open>
  The handle is opened by \<^verbatim>\<open>gorm.Open(mysql.Open(dsn), &gorm.Config{})\<close>, so gorm's default
  logger is in place: a query that fails has an error record printed to the log. A failing
  \<^verbatim>\<open>Find\<close> also reports the error in its result and leaves the slice empty. \<open>Find\<close> takes
  the log and returns it with what the logger printed.
\<close>

definition Find ::
    "gorm_DB \<Rightarrow> time \<Rightarrow> log_line list \<Rightarrow> go_error option \<times> ClassSchedule list \<times> log_line list" where
  "Find db now lg =
     (if connected db then (None, filter (query_selects now) (class_schedules db), lg)
      else (Some DBError, [], lg @ [GormErrorRecord DBError]))"

text \<open>
  Modelled from the spec: \<^verbatim>\<open>services.Manager\<close> (the room registry) is not among the
  sources. Of a room only its existence matters to the reconciler. \<open>DeleteRoom\<close> fails
  with \<open>NotFound\<close> when the room is absent and removes it otherwise. The manager's
  \<^verbatim>\<open>DeleteBroadcast\<close> is the delete operation.
\<close>

record Manager =
  rooms :: "string set"

text \<open>
  Modelled from the spec: \<open>DeleteRoom(roomID)\<close> fails with NotFound if the room is absent, and
  otherwise removes the room entry.
\<close>

definition DeleteBroadcast :: "string \<Rightarrow> Manager \<Rightarrow> error option \<times> Manager" where
  "DeleteBroadcast roomID m =
     (if roomID \<in> rooms m then (None, m\<lparr>rooms := rooms m - {roomID}\<rparr>)
      else (Some NotFound, m))"

section \<open>The reconciler \<^verbatim>\<open>manageChatRooms\<close>\<close>

text \<open>
  What the goroutine can change: the manager, and the process log. The calls it makes on
  the manager are recorded in order.
\<close>

datatype manager_call = CreateRoomCall string | DeleteBroadcastCall string

record world =
  manager :: Manager
  calls :: "manager_call list"
  logged :: "log_line list"

text \<open>
  \<^verbatim>\<open>chatManager.DeleteBroadcast(roomID)\<close> is an expression statement: whatever it
  returns is dropped.
\<close>

definition call_DeleteBroadcast :: "string \<Rightarrow> world \<Rightarrow> world" where
  "call_DeleteBroadcast roomID w =
     w\<lparr>manager := snd (DeleteBroadcast roomID (manager w)),
       calls := calls w @ [DeleteBroadcastCall roomID]\<rparr>"

text \<open>The body of \<^verbatim>\<open>for _, schedule := range schedules\<close>.\<close>

fun range_schedules :: "time \<Rightarrow> ClassSchedule list \<Rightarrow> world \<Rightarrow> world" where
  "range_schedules now [] w = w"
| "range_schedules now (schedule # rest) w =
     (let roomID = Sprintf_class_d (ID schedule) in
        if EndedAt schedule + 10 * Minute < now
        then range_schedules now rest (call_DeleteBroadcast roomID w)
        else range_schedules now rest w)"

text \<open>
  One round of the loop, after \<^verbatim>\<open><-ticker.C\<close> has delivered: \<open>now\<close> is \<^verbatim>\<open>time.Now()\<close>.
  The error in the result of \<^verbatim>\<open>Find\<close> is not inspected; the loop body runs on the slice.
\<close>

definition tick :: "gorm_DB \<Rightarrow> time \<Rightarrow> world \<Rightarrow> world" where
  "tick db now w =
     (case Find db now (logged w) of
        (err, schedules, lg) \<Rightarrow> range_schedules now schedules (w\<lparr>logged := lg\<rparr>))"


text \<open>
  The condition of the loop body, \<^verbatim>\<open>now.After(schedule.EndedAt.Add(10 * time.Minute))\<close>,
  as a predicate on schedules.
\<close>

definition grace_passed :: "time \<Rightarrow> ClassSchedule \<Rightarrow> bool" where
  "grace_passed now s = (EndedAt s + 10 * Minute < now)"

section \<open>HTTP: the gin context, handler chains and route groups\<close>

text \<open>
  The part of gin that the router set-up of \<^verbatim>\<open>main.go\<close> relies on. A handler receives the
  context; \<^verbatim>\<open>c.Next()\<close> runs the handlers that follow it in the chain, \<^verbatim>\<open>c.Abort()\<close>
  prevents them from running. A handler is modelled as a function of the continuation
  \<^verbatim>\<open>c.Next\<close> and the context; \<open>run_handlers\<close> is gin's loop over the chain, which stops
  at an aborted context.
\<close>

record http_Request =
  Method :: string
  URLPath :: string
  ReqHeader :: "string \<rightharpoonup> string"

record Context =
  Request :: http_Request
  Status :: nat
  Header :: "string \<rightharpoonup> string list"
  aborted :: bool
  userID :: "nat option"

type_synonym HandlerFunc = "(Context \<Rightarrow> Context) \<Rightarrow> Context \<Rightarrow> Context"

fun run_handlers :: "HandlerFunc list \<Rightarrow> Context \<Rightarrow> Context" where
  "run_handlers [] c = c"
| "run_handlers (h # hs) c = (if aborted c then c else h (run_handlers hs) c)"

text \<open>\<^verbatim>\<open>c.Writer.Header().Set(k, v)\<close> replaces the values of the key by the single value.\<close>

definition Header_Set :: "string \<Rightarrow> string \<Rightarrow> Context \<Rightarrow> Context" where
  "Header_Set k v c = c\<lparr>Header := (Header c)(k \<mapsto> [v])\<rparr>"

text \<open>\<^verbatim>\<open>c.AbortWithStatus(code)\<close>: sets the status, writes the header and aborts.\<close>

definition AbortWithStatus :: "nat \<Rightarrow> Context \<Rightarrow> Context" where
  "AbortWithStatus code c = c\<lparr>Status := code, aborted := True\<rparr>"

subsection \<open>The middleware \<^verbatim>\<open>CORS\<close>\<close>

definition set_cors_headers :: "Context \<Rightarrow> Context" where
  "set_cors_headers c =
     Header_Set ''Access-Control-Allow-Methods'' ''POST, PATCH, GET, PUT, DELETE, OPTIONS''
       (Header_Set ''Access-Control-Allow-Headers''
          ''Content-Type, Content-Length, Accept-Encoding, X-CSRF-Token, Authorization, accept, origin, Cache-Control, X-Requested-With''
          (Header_Set ''Access-Control-Allow-Credentials'' ''true''
             (Header_Set ''Access-Control-Allow-Origin'' ''http://localhost:3000'' c)))"

definition CORS :: HandlerFunc where
  "CORS next c =
     (let c = set_cors_headers c in
        if Method (Request c) = ''OPTIONS'' then AbortWithStatus 204 c
        else next c)"

subsection \<open>Route groups\<close>

text \<open>
  A \<^verbatim>\<open>RouterGroup\<close> has a base path and the middleware its routes start with; the engine
  holds its root group and the registered routes. \<^verbatim>\<open>Group\<close> copies the handlers of its
  parent, \<^verbatim>\<open>Use\<close> appends a middleware to the group, and registering a route stores the
  group's handlers at that moment followed by the route's handler.

  \<open>joinPaths\<close> is gin's, with \<^verbatim>\<open>path.Join\<close> restricted to what route patterns without dot
  segments need: one slash between the parts, no doubled slash, no slash at the end unless
  the relative path has one.
\<close>

record RouterGroup =
  basePath :: string
  Handlers :: "HandlerFunc list"

record RouteInfo =
  route_method :: string
  route_path :: string
  route_chain :: "HandlerFunc list"

record Engine =
  root :: RouterGroup
  trees :: "RouteInfo list"

fun squeeze_slashes :: "string \<Rightarrow> string" where
  "squeeze_slashes (a # b # cs) =
     (if a = CHR ''/'' \<and> b = CHR ''/'' then squeeze_slashes (b # cs)
      else a # squeeze_slashes (b # cs))"
| "squeeze_slashes cs = cs"

definition drop_last_slash :: "string \<Rightarrow> string" where
  "drop_last_slash p =
     (if 1 < length p \<and> last p = CHR ''/'' then butlast p else p)"

definition joinPaths :: "string \<Rightarrow> string \<Rightarrow> string" where
  "joinPaths absolutePath relativePath =
     (if relativePath = [] then absolutePath
      else (let finalPath = drop_last_slash (squeeze_slashes (absolutePath @ ''/'' @ relativePath)) in
              if last relativePath = CHR ''/'' \<and> last finalPath \<noteq> CHR ''/''
              then finalPath @ ''/'' else finalPath))"

definition Group :: "RouterGroup \<Rightarrow> string \<Rightarrow> RouterGroup" where
  "Group g relativePath =
     \<lparr>basePath = joinPaths (basePath g) relativePath, Handlers = Handlers g\<rparr>"

definition Use :: "RouterGroup \<Rightarrow> HandlerFunc \<Rightarrow> RouterGroup" where
  "Use g middleware = g\<lparr>Handlers := Handlers g @ [middleware]\<rparr>"

definition handle :: "string \<Rightarrow> RouterGroup \<Rightarrow> string \<Rightarrow> HandlerFunc \<Rightarrow> Engine \<Rightarrow> Engine" where
  "handle httpMethod g relativePath handler e =
     e\<lparr>trees := trees e @
          [\<lparr>route_method = httpMethod,
            route_path = joinPaths (basePath g) relativePath,
            route_chain = Handlers g @ [handler]\<rparr>]\<rparr>"

subsection \<open>\<^verbatim>\<open>setupLiveClassRoutes\<close>\<close>

text \<open>
  Modelled from the spec: \<^verbatim>\<open>middlewares.TokenAuthMiddleware\<close> and the JWT service are not
  among the sources. The spec has: all \<^verbatim>\<open>live/*\<close> routes require a validated bearer
  credential that resolves to a caller identity; a missing or invalid identity on a
  protected route is \<open>Unauthorized\<close>, which is answered with status 401. The validation
  of a token (token to caller identity) is the parameter \<open>jwtService\<close>.
\<close>

text \<open>
  Modelled from the spec: the bearer credential of a request, the token of its
  \<open>Authorization: Bearer\<close> header.
\<close>

definition bearer_token :: "Context \<Rightarrow> string option" where
  "bearer_token c =
     (case ReqHeader (Request c) ''Authorization'' of
        None \<Rightarrow> None
      | Some v \<Rightarrow> if take 7 v = ''Bearer '' then Some (drop 7 v) else None)"

text \<open>
  Modelled from the spec: the credential is validated and resolves to a caller identity.
\<close>

definition caller_identity :: "(string \<Rightarrow> nat option) \<Rightarrow> Context \<Rightarrow> nat option" where
  "caller_identity jwtService c =
     (case bearer_token c of None \<Rightarrow> None | Some token \<Rightarrow> jwtService token)"

text \<open>
  Modelled from the spec: without a validated credential the request is Unauthorized and
  the chain is aborted; with one, the caller identity is attached to the request.
\<close>

definition TokenAuthMiddleware :: "(string \<Rightarrow> nat option) \<Rightarrow> HandlerFunc" where
  "TokenAuthMiddleware jwtService next c =
     (case caller_identity jwtService c of
        None \<Rightarrow> AbortWithStatus (status_code Unauthorized) c
      | Some uid \<Rightarrow> next (c\<lparr>userID := Some uid\<rparr>))"

text \<open>
  The handlers of \<^verbatim>\<open>controllers.LiveClassController\<close> are not among the sources; the
  router only stores them, so they are parameters.
\<close>

record LiveClassController =
  CreateRoomHandler :: HandlerFunc
  StartScreenShareHandler :: HandlerFunc
  StopScreenShareHandler :: HandlerFunc
  ViewScreenShareHandler :: HandlerFunc

definition setupLiveClassRoutes ::
    "Engine \<Rightarrow> LiveClassController \<Rightarrow> (string \<Rightarrow> nat option) \<Rightarrow> Engine" where
  "setupLiveClassRoutes router liveClassController jwtService =
     (let live = Group (root router) ''/api/gin/live'';
          live = Use live (TokenAuthMiddleware jwtService);
          router = handle ''POST'' live ''create-room'' (CreateRoomHandler liveClassController) router;
          router = handle ''GET'' live ''start-screen-share/:roomID/:userID''
                     (StartScreenShareHandler liveClassController) router;
          router = handle ''GET'' live ''stop-screen-share/:roomID/:userID''
                     (StopScreenShareHandler liveClassController) router;
          router = handle ''GET'' live ''view-screen-share/:roomID''
                     (ViewScreenShareHandler liveClassController) router
      in router)"

section \<open>Start-up: \<^verbatim>\<open>ensureEnvVariables\<close> and \<^verbatim>\<open>main\<close>\<close>

text \<open>
  The environment maps names to values; \<^verbatim>\<open>os.Getenv\<close> gives the empty string for a name
  that is not set. A process is its environment, the lines it has logged and how far it
  has got. \<^verbatim>\<open>log.Fatalf\<close> writes its line and exits with status 1; what follows it in the
  program does not run.
\<close>

type_synonym env = "string \<rightharpoonup> string"

definition Getenv :: "env \<Rightarrow> string \<Rightarrow> string" where
  "Getenv e k = (case e k of None \<Rightarrow> [] | Some v \<Rightarrow> v)"

datatype run_state = Starting | Serving | Exited int

record process =
  environ :: env
  log_output :: "log_line list"
  state :: run_state

definition log_Println :: "log_line \<Rightarrow> process \<Rightarrow> process" where
  "log_Println l p = p\<lparr>log_output := log_output p @ [l]\<rparr>"

definition log_Fatalf :: "log_line \<Rightarrow> process \<Rightarrow> process" where
  "log_Fatalf l p = p\<lparr>log_output := log_output p @ [l], state := Exited 1\<rparr>"

definition and_then :: "process \<Rightarrow> (process \<Rightarrow> process) \<Rightarrow> process" where
  "and_then p f = (case state p of Starting \<Rightarrow> f p | Serving \<Rightarrow> p | Exited code \<Rightarrow> p)"

text \<open>
  \<^verbatim>\<open>godotenv.Load()\<close> reads the file \<^verbatim>\<open>.env\<close>: without a readable file it returns an error
  and changes nothing; otherwise it sets each variable of the file that the environment
  does not have yet. The file is given by the variables it defines, \<open>None\<close> when it is
  missing.
\<close>

definition godotenv_Load :: "env option \<Rightarrow> process \<Rightarrow> go_error option \<times> process" where
  "godotenv_Load dotenv p =
     (case dotenv of
        None \<Rightarrow> (Some FileError, p)
      | Some vars \<Rightarrow> (None, p\<lparr>environ := vars ++ environ p\<rparr>))"

definition requiredVars :: "string list" where
  "requiredVars = [''MYSQL_HOST'', ''MYSQL_USER'', ''MYSQL_PASSWORD'', ''MYSQL_DATABASE'', ''MYSQL_PORT'']"

fun range_requiredVars :: "string list \<Rightarrow> process \<Rightarrow> process" where
  "range_requiredVars [] p = p"
| "range_requiredVars (varName # rest) p =
     (if Getenv (environ p) varName = [] then log_Fatalf (EnvVarNotSet varName) p
      else range_requiredVars rest p)"

definition ensureEnvVariables :: "env option \<Rightarrow> process \<Rightarrow> process" where
  "ensureEnvVariables dotenv p =
     (case godotenv_Load dotenv p of
        (Some err, p') \<Rightarrow> range_requiredVars requiredVars (log_Println EnvFileNotLoaded p')
      | (None, p') \<Rightarrow> range_requiredVars requiredVars p')"

text \<open>
  \<^verbatim>\<open>main\<close>: the environment check, then the database and Redis (each fatal when it
  cannot be reached, which is an input here), then the router and \<^verbatim>\<open>startServer\<close>, from
  which on requests are served.
\<close>

record startup =
  dotenv_file :: "env option"
  database_reachable :: bool
  redis_reachable :: bool

definition initializeDatabase :: "bool \<Rightarrow> process \<Rightarrow> process" where
  "initializeDatabase ok p = (if ok then p else log_Fatalf DatabaseInitFailed p)"

definition initializeRedis :: "bool \<Rightarrow> process \<Rightarrow> process" where
  "initializeRedis ok p = (if ok then p else log_Fatalf RedisInitFailed p)"

definition startServer :: "process \<Rightarrow> process" where
  "startServer p = p\<lparr>state := Serving\<rparr>"

definition main :: "startup \<Rightarrow> process \<Rightarrow> process" where
  "main inp p =
     and_then (and_then (and_then (and_then p
       (ensureEnvVariables (dotenv_file inp)))
       (initializeDatabase (database_reachable inp)))
       (initializeRedis (redis_reachable inp)))
       startServer"

section \<open>Direct messages\<close>

text \<open>
  Modelled from the spec: the chat controller behind \<^verbatim>\<open>POST dm/:senderId/:receiverId\<close> and
  \<^verbatim>\<open>GET dm/:userId1/:userId2\<close> is not among the sources. The spec has: a direct message is
  \<open>{id, unorderedPairKey, senderUserID, body, timestamp}\<close>; the pair key is a canonical,
  order-independent encoding of the two user ids; \<open>SendDirectMessage\<close> always succeeds and
  appends to the log of the pair; \<open>GetDirectMessages\<close> returns the full log of the pair in
  send order.
\<close>

text \<open>
  Modelled from the spec: a direct message is \<open>{id, unorderedPairKey, senderUserID, body,
  timestamp}\<close>.
\<close>

record DirectMessage =
  dm_id :: nat
  unorderedPairKey :: "nat \<times> nat"
  senderUserID :: nat
  body :: string
  timestamp :: time

text \<open>
  Modelled from the spec: the store keeps one log for each pair key, and the next message id.
\<close>

record DirectMessageStore =
  pair_logs :: "(nat \<times> nat) \<rightharpoonup> DirectMessage list"
  next_dm_id :: nat

text \<open>
  Modelled from the spec: the store before any message has been sent.
\<close>

definition empty_store :: DirectMessageStore where
  "empty_store = \<lparr>pair_logs = Map.empty, next_dm_id = 0\<rparr>"

text \<open>
  Modelled from the spec: the canonical, order-independent encoding of two user ids: the
  smaller id first.
\<close>

definition canonicalPairKey :: "nat \<Rightarrow> nat \<Rightarrow> nat \<times> nat" where
  "canonicalPairKey a b = (min a b, max a b)"

text \<open>
  Modelled from the spec: \<open>GetDirectMessages\<close> returns the full log of the pair, in send
  order, whichever way round the two users are given.
\<close>

definition GetDirectMessages :: "nat \<Rightarrow> nat \<Rightarrow> DirectMessageStore \<Rightarrow> DirectMessage list" where
  "GetDirectMessages userID1 userID2 st =
     (case pair_logs st (canonicalPairKey userID1 userID2) of None \<Rightarrow> [] | Some l \<Rightarrow> l)"

text \<open>
  Modelled from the spec: \<open>SendDirectMessage\<close> always succeeds and appends the message to
  the log keyed by the canonical pair key of sender and receiver.
\<close>

definition SendDirectMessage ::
    "nat \<Rightarrow> nat \<Rightarrow> string \<Rightarrow> time \<Rightarrow> DirectMessageStore \<Rightarrow> DirectMessage \<times> DirectMessageStore" where
  "SendDirectMessage senderID receiverID msg now st =
     (let k = canonicalPairKey senderID receiverID;
          m = \<lparr>dm_id = next_dm_id st, unorderedPairKey = k, senderUserID = senderID,
               body = msg, timestamp = now\<rparr>
      in (m, \<lparr>pair_logs = (pair_logs st)(k \<mapsto> GetDirectMessages senderID receiverID st @ [m]),
              next_dm_id = Suc (next_dm_id st)\<rparr>))"

text \<open>A history of calls of \<open>SendDirectMessage\<close>: sender, receiver, body and time of each.\<close>

type_synonym dm_call = "nat \<times> nat \<times> string \<times> time"

fun send_all :: "dm_call list \<Rightarrow> DirectMessageStore \<Rightarrow> DirectMessageStore" where
  "send_all [] st = st"
| "send_all ((s, r, msg, now) # rest) st = send_all rest (snd (SendDirectMessage s r msg now st))"

definition between :: "nat \<Rightarrow> nat \<Rightarrow> dm_call \<Rightarrow> bool" where
  "between a b call =
     (case call of (s, r, msg, now) \<Rightarrow> (s = a \<and> r = b) \<or> (s = b \<and> r = a))"

definition sent_content :: "dm_call \<Rightarrow> nat \<times> string \<times> time" where
  "sent_content call = (case call of (s, r, msg, now) \<Rightarrow> (s, msg, now))"

definition message_content :: "DirectMessage \<Rightarrow> nat \<times> string \<times> time" where
  "message_content m = (senderUserID m, body m, timestamp m)"

section \<open>Live sessions\<close>

text \<open>
  Modelled from the spec: the live-class service behind the \<^verbatim>\<open>live/*\<close> handlers is not
  among the sources. The spec has: a live session is \<open>{roomID, presenterUserID: optional,
  viewers}\<close>, created lazily in state Idle on first reference. \<open>StartScreenShare\<close> fails
  with Conflict when another user presents, succeeds without a change when the same user
  presents already, and otherwise makes the user the presenter. \<open>StopScreenShare\<close> fails
  with Conflict unless the user is the presenter, and otherwise returns to Idle. Deleting
  the room retires the session.
\<close>

text \<open>
  Modelled from the spec: a live session has an optional presenter and a set of viewers.
\<close>

record LiveSession =
  presenterUserID :: "nat option"
  viewers :: "nat set"

type_synonym LiveSessionRegistry = "string \<rightharpoonup> LiveSession"

text \<open>
  Modelled from the spec: the initial state of a session on first reference, no presenter.
\<close>

definition Idle :: LiveSession where
  "Idle = \<lparr>presenterUserID = None, viewers = {}\<rparr>"

text \<open>
  Modelled from the spec: a session is created lazily: a room without one is in state Idle.
\<close>

definition session :: "LiveSessionRegistry \<Rightarrow> string \<Rightarrow> LiveSession" where
  "session reg room = (case reg room of None \<Rightarrow> Idle | Some s \<Rightarrow> s)"

text \<open>
  Modelled from the spec: \<open>StartScreenShare\<close> fails with Conflict when another user is
  presenting, succeeds without a change for the presenter, and otherwise makes the user the
  presenter.
\<close>

definition StartScreenShare ::
    "string \<Rightarrow> nat \<Rightarrow> LiveSessionRegistry \<Rightarrow> error + LiveSessionRegistry" where
  "StartScreenShare room user reg =
     (let s = session reg room in
        case presenterUserID s of
          Some other \<Rightarrow> if other = user then Inr (reg(room \<mapsto> s)) else Inl Conflict
        | None \<Rightarrow> Inr (reg(room \<mapsto> s\<lparr>presenterUserID := Some user\<rparr>)))"

text \<open>
  Modelled from the spec: \<open>StopScreenShare\<close> fails with Conflict if the user is not the
  current presenter, and otherwise returns the session to Idle.
\<close>

definition StopScreenShare ::
    "string \<Rightarrow> nat \<Rightarrow> LiveSessionRegistry \<Rightarrow> error + LiveSessionRegistry" where
  "StopScreenShare room user reg =
     (let s = session reg room in
        if presenterUserID s = Some user then Inr (reg(room \<mapsto> s\<lparr>presenterUserID := None\<rparr>))
        else Inl Conflict)"

text \<open>
  Modelled from the spec: \<open>ViewScreenShare\<close> returns the current presenter, if any.
\<close>

definition ViewScreenShare :: "string \<Rightarrow> LiveSessionRegistry \<Rightarrow> nat option" where
  "ViewScreenShare room reg = presenterUserID (session reg room)"

text \<open>
  Modelled from the spec: deleting a room retires its live session.
\<close>

definition retire_session :: "string \<Rightarrow> LiveSessionRegistry \<Rightarrow> LiveSessionRegistry" where
  "retire_session room reg = reg(room := None)"

text \<open>
  Modelled from the spec: the operations on the live-session registry: start, stop, join
  and leave viewing, and retiring the session with its room.
\<close>

datatype live_call =
    Start string nat
  | Stop string nat
  | JoinView string nat
  | LeaveView string nat
  | Retire string

text \<open>A call that fails leaves the registry as it was.\<close>

definition keep_on_error :: "LiveSessionRegistry \<Rightarrow> error + LiveSessionRegistry \<Rightarrow> LiveSessionRegistry" where
  "keep_on_error reg res = (case res of Inl e \<Rightarrow> reg | Inr reg' \<Rightarrow> reg')"

fun live_step :: "live_call \<Rightarrow> LiveSessionRegistry \<Rightarrow> LiveSessionRegistry" where
  "live_step (Start room user) reg = keep_on_error reg (StartScreenShare room user reg)"
| "live_step (Stop room user) reg = keep_on_error reg (StopScreenShare room user reg)"
| "live_step (JoinView room user) reg =
     reg(room \<mapsto> (session reg room)\<lparr>viewers := insert user (viewers (session reg room))\<rparr>)"
| "live_step (LeaveView room user) reg =
     reg(room \<mapsto> (session reg room)\<lparr>viewers := viewers (session reg room) - {user}\<rparr>)"
| "live_step (Retire room) reg = retire_session room reg"

fun live_run :: "live_call list \<Rightarrow> LiveSessionRegistry \<Rightarrow> LiveSessionRegistry" where
  "live_run [] reg = reg"
| "live_run (call # rest) reg = live_run rest (live_step call reg)"

definition presenters :: "LiveSessionRegistry \<Rightarrow> string \<Rightarrow> nat set" where
  "presenters reg room = set_option (presenterUserID (session reg room))"

section \<open>Example inputs\<close>

text \<open>Concrete requests, routers, environments and registries on which the results below are evaluated.\<close>

definition example_handler :: HandlerFunc where
  "example_handler next c = next (c\<lparr>Status := 200\<rparr>)"

definition example_router :: Engine where
  "example_router = \<lparr>root = \<lparr>basePath = ''/'', Handlers = [CORS]\<rparr>, trees = []\<rparr>"

definition example_controller :: LiveClassController where
  "example_controller =
     \<lparr>CreateRoomHandler = example_handler, StartScreenShareHandler = example_handler,
      StopScreenShareHandler = example_handler, ViewScreenShareHandler = example_handler\<rparr>"

definition example_jwtService :: "string \<Rightarrow> nat option" where
  "example_jwtService token = (if token = ''valid-token'' then Some 7 else None)"

definition example_request :: "string \<Rightarrow> (string \<rightharpoonup> string) \<Rightarrow> Context" where
  "example_request m hdr =
     \<lparr>Request = \<lparr>Method = m, URLPath = ''/api/gin/live/view-screen-share/class_42'', ReqHeader = hdr\<rparr>,
      Status = 200, Header = Map.empty, aborted = False, userID = None\<rparr>"

definition env_without_port :: env where
  "env_without_port =
     [''MYSQL_HOST'' \<mapsto> ''db'', ''MYSQL_USER'' \<mapsto> ''minori'', ''MYSQL_PASSWORD'' \<mapsto> ''secret'',
      ''MYSQL_DATABASE'' \<mapsto> ''minori'']"

definition env_complete :: env where
  "env_complete = env_without_port(''MYSQL_PORT'' \<mapsto> ''3306'')"

definition fresh_process :: "env \<Rightarrow> process" where
  "fresh_process e = \<lparr>environ = e, log_output = [], state = Starting\<rparr>"

definition no_dotenv :: startup where
  "no_dotenv = \<lparr>dotenv_file = None, database_reachable = True, redis_reachable = True\<rparr>"

definition presenting :: "string \<Rightarrow> nat \<Rightarrow> LiveSessionRegistry" where
  "presenting room user = [room \<mapsto> \<lparr>presenterUserID = Some user, viewers = {}\<rparr>]"

section \<open>Room identifiers\<close>

lemma ldigits_value: "k < 10 \<Longrightarrow> digit_value (ldigits ! k) = k"
proof -
  assume "k < 10"
  then have "k \<in> {0, 1, 2, 3, 4, 5, 6, 7, 8, 9}" by auto
  then show ?thesis by (auto simp: ldigits_def digit_value_def)
qed

lemma ldigits_is_digit: "k < 10 \<Longrightarrow> is_digit (ldigits ! k)"
  unfolding is_digit_def by (rule nth_mem) (simp add: ldigits_def)

text \<open>The buffer is only ever extended at its front.\<close>

lemma fmtInteger_buf: "fmtInteger u buf = fmtInteger u [] @ buf"
proof (induction u arbitrary: buf rule: less_induct)
  case (less u)
  show ?case
  proof (cases "10 \<le> u")
    case True
    then have lt: "u div 10 < u" by simp
    have "fmtInteger u buf = fmtInteger (u div 10) ((ldigits ! (u mod 10)) # buf)"
      using True by (simp add: fmtInteger.simps [of u buf])
    also have "\<dots> = fmtInteger (u div 10) [] @ ((ldigits ! (u mod 10)) # buf)"
      by (rule less.IH [OF lt])
    also have "\<dots> = (fmtInteger (u div 10) [] @ [ldigits ! (u mod 10)]) @ buf"
      by simp
    also have "fmtInteger (u div 10) [] @ [ldigits ! (u mod 10)] =
        fmtInteger (u div 10) [ldigits ! (u mod 10)]"
      by (rule less.IH [OF lt, symmetric])
    also have "fmtInteger (u div 10) [ldigits ! (u mod 10)] = fmtInteger u []"
      using True by (simp add: fmtInteger.simps [of u "[]"])
    finally show ?thesis .
  next
    case False
    then show ?thesis by (simp add: fmtInteger.simps [of u])
  qed
qed

lemma fmtInteger_step:
  "10 \<le> u \<Longrightarrow> fmtInteger u [] = fmtInteger (u div 10) [] @ [ldigits ! (u mod 10)]"
  by (simp add: fmtInteger.simps [of u "[]"] fmtInteger_buf [of "u div 10" "[_]"])

lemma decimal_value_fmtInteger: "decimal_value (fmtInteger u []) = u"
proof (induction u rule: less_induct)
  case (less u)
  show ?case
  proof (cases "10 \<le> u")
    case True
    then have lt: "u div 10 < u" by simp
    have "decimal_value (fmtInteger u []) =
        digit_value (ldigits ! (u mod 10)) + 10 * decimal_value (fmtInteger (u div 10) [])"
      by (simp add: fmtInteger_step [OF True] decimal_value_def)
    also have "\<dots> = u mod 10 + 10 * (u div 10)"
      by (simp add: less.IH [OF lt] ldigits_value)
    finally show ?thesis by simp
  next
    case False
    then show ?thesis
      by (simp add: fmtInteger.simps [of u] decimal_value_def ldigits_value)
  qed
qed

lemma fmtInteger_digits: "list_all is_digit (fmtInteger u [])"
proof (induction u rule: less_induct)
  case (less u)
  show ?case
  proof (cases "10 \<le> u")
    case True
    then have lt: "u div 10 < u" by simp
    show ?thesis
      by (simp add: fmtInteger_step [OF True] less.IH [OF lt] ldigits_is_digit)
  next
    case False
    then show ?thesis by (simp add: fmtInteger.simps [of u] ldigits_is_digit)
  qed
qed

lemma fmtInteger_inj: "(fmtInteger m [] = fmtInteger n []) = (m = n)"
  by (metis decimal_value_fmtInteger)

lemma Sprintf_class_d_42: "Sprintf_class_d 42 = ''class_42''"
  by (simp add: Sprintf_class_d_def fmtInteger.simps ldigits_def)

text \<open>
  C4. The room identifier of schedule \<open>n\<close> is the string \<open>class_\<close> followed by the
  decimal rendering of \<open>n\<close>: a string of decimal digits whose value is \<open>n\<close>. It is a
  function of the schedule id alone, and two schedule ids with the same room identifier
  are equal.
\<close>

theorem roomID_decimal_injective:
  "Sprintf_class_d n = ''class_'' @ fmtInteger n []
   \<and> list_all is_digit (fmtInteger n [])
   \<and> decimal_value (fmtInteger n []) = n
   \<and> (Sprintf_class_d m = Sprintf_class_d n) = (m = n)"
  by (simp add: Sprintf_class_d_def decimal_value_fmtInteger fmtInteger_digits fmtInteger_inj)

section \<open>The reconciler tick\<close>

lemma Minute_pos: "0 < Minute"
  by (simp add: Minute_def)

lemma logged_call_DeleteBroadcast [simp]: "logged (call_DeleteBroadcast r w) = logged w"
  by (simp add: call_DeleteBroadcast_def)

lemma calls_call_DeleteBroadcast [simp]:
  "calls (call_DeleteBroadcast r w) = calls w @ [DeleteBroadcastCall r]"
  by (simp add: call_DeleteBroadcast_def)

lemma rooms_call_DeleteBroadcast [simp]:
  "rooms (manager (call_DeleteBroadcast r w)) = rooms (manager w) - {r}"
  by (auto simp: call_DeleteBroadcast_def DeleteBroadcast_def)


lemma range_schedules_calls:
  "calls (range_schedules now ss w) =
     calls w @ map (\<lambda>s. DeleteBroadcastCall (Sprintf_class_d (ID s))) (filter (grace_passed now) ss)"
  by (induction ss arbitrary: w) (simp_all add: Let_def grace_passed_def)

lemma range_schedules_rooms:
  "rooms (manager (range_schedules now ss w)) =
     rooms (manager w) - set (map (\<lambda>s. Sprintf_class_d (ID s)) (filter (grace_passed now) ss))"
  by (induction ss arbitrary: w) (auto simp: Let_def grace_passed_def)



lemma microseconds_bounds: "microseconds t \<le> t \<and> t < microseconds t + 1000"
  unfolding microseconds_def by presburger




text \<open>
  The schedules a tick calls \<^verbatim>\<open>DeleteBroadcast\<close> for are those the query selects and whose
  grace period has passed. The second clause of the query asks for \<^verbatim>\<open>ended_at\<close> within the
  last ten minutes: of the schedules that end no earlier than they start, the only ones
  that pass both are those whose end lies less than a microsecond before \<open>now - 10 * Minute\<close>.
\<close>

lemma selected_and_grace_passed:
  "query_selects now s \<Longrightarrow> grace_passed now s \<Longrightarrow>
   (microseconds now \<le> StartedAt s \<and> StartedAt s \<le> microseconds (now + 5 * Minute))
   \<or> (microseconds (now - 10 * Minute) \<le> EndedAt s \<and> EndedAt s < now - 10 * Minute)"
  by (auto simp: query_selects_def grace_passed_def)

lemma ended_after_start_deleted_only_in_last_microsecond:
  assumes "StartedAt s \<le> EndedAt s" and "query_selects now s" and "grace_passed now s"
  shows "now - 10 * Minute - 1000 < EndedAt s \<and> EndedAt s < now - 10 * Minute"
proof -
  from assms(3) have g: "EndedAt s < now - 10 * Minute"
    by (simp add: grace_passed_def)
  from selected_and_grace_passed [OF assms(2,3)] show ?thesis
  proof
    assume "microseconds now \<le> StartedAt s \<and> StartedAt s \<le> microseconds (now + 5 * Minute)"
    with assms(1) g microseconds_bounds [of now] Minute_pos show ?thesis
      by (simp add: Minute_def)
  next
    assume "microseconds (now - 10 * Minute) \<le> EndedAt s \<and> EndedAt s < now - 10 * Minute"
    with microseconds_bounds [of "now - 10 * Minute"] show ?thesis
      by simp
  qed
qed

lemma within_grace_not_deleted:
  "now - 10 * Minute \<le> EndedAt s \<Longrightarrow> \<not> grace_passed now s"
  by (simp add: grace_passed_def)

text \<open>
  C1. A schedule that ended eleven minutes before the tick (and started an hour earlier),
  with its room \<open>class_42\<close> present: the query does not select it, so the tick makes no
  call on the manager and the room stays.
\<close>

theorem tick_keeps_room_ended_11_minutes_ago:
  "tick \<lparr>class_schedules = [\<lparr>ID = 42, StartedAt = now - 71 * Minute, EndedAt = now - 11 * Minute\<rparr>],
         connected = True\<rparr> now
        \<lparr>manager = \<lparr>rooms = {''class_42''}\<rparr>, calls = [], logged = []\<rparr>
   = \<lparr>manager = \<lparr>rooms = {''class_42''}\<rparr>, calls = [], logged = []\<rparr>"
proof -
  have "\<not> query_selects now \<lparr>ID = 42, StartedAt = now - 71 * Minute, EndedAt = now - 11 * Minute\<rparr>"
    using microseconds_bounds [of now] microseconds_bounds [of "now + (- 10) * Minute"]
    by (simp add: query_selects_def Minute_def)
  then show ?thesis
    by (simp add: tick_def Find_def)
qed

text \<open>
  C2, as stated, fails: a schedule that starts four minutes after the tick is selected by
  the query, and the tick neither calls the manager nor adds the room \<open>class_7\<close>.
\<close>

theorem tick_creates_no_room_in_lead_window:
  "query_selects 0 \<lparr>ID = 7, StartedAt = 4 * Minute, EndedAt = 64 * Minute\<rparr>
   \<and> tick \<lparr>class_schedules = [\<lparr>ID = 7, StartedAt = 4 * Minute, EndedAt = 64 * Minute\<rparr>],
           connected = True\<rparr> 0
          \<lparr>manager = \<lparr>rooms = {}\<rparr>, calls = [], logged = []\<rparr>
     = \<lparr>manager = \<lparr>rooms = {}\<rparr>, calls = [], logged = []\<rparr>"
  by (simp add: tick_def Find_def query_selects_def microseconds_def Minute_def)

text \<open>
  C2, amended. A tick never creates a room: it makes no call that creates one, and the
  rooms after the tick are among the rooms before it. So neither a schedule that starts in
  four minutes nor one that starts in six minutes gets a room on that tick.
\<close>

theorem tick_never_creates_room:
  "(CreateRoomCall r \<in> set (calls (tick db now w))) = (CreateRoomCall r \<in> set (calls w))
   \<and> rooms (manager (tick db now w)) \<subseteq> rooms (manager w)"
  by (auto simp: tick_def Find_def range_schedules_calls range_schedules_rooms)



section \<open>The CORS middleware\<close>

lemma aborted_set_cors_headers [simp]: "aborted (set_cors_headers c) = aborted c"
  by (simp add: set_cors_headers_def Header_Set_def)

lemma Request_set_cors_headers [simp]: "Request (set_cors_headers c) = Request c"
  by (simp add: set_cors_headers_def Header_Set_def)

lemma Status_set_cors_headers [simp]: "Status (set_cors_headers c) = Status c"
  by (simp add: set_cors_headers_def Header_Set_def)

text \<open>
  C9. On a request with method \<open>OPTIONS\<close> the chain that starts at \<open>CORS\<close> ends there,
  with status 204 and aborted, whatever handlers follow. On any other method the handlers
  that follow run on the context with the four \<open>Access-Control-*\<close> headers set; the
  request, the status and the other headers are as before.
\<close>

theorem CORS_options_aborts_others_pass:
  "(\<not> aborted c \<and> Method (Request c) = ''OPTIONS'' \<longrightarrow>
      run_handlers (CORS # rest) c = AbortWithStatus 204 (set_cors_headers c)
      \<and> Status (run_handlers (CORS # rest) c) = 204
      \<and> aborted (run_handlers (CORS # rest) c))
   \<and> (\<not> aborted c \<and> Method (Request c) \<noteq> ''OPTIONS'' \<longrightarrow>
      run_handlers (CORS # rest) c = run_handlers rest (set_cors_headers c))
   \<and> Request (set_cors_headers c) = Request c
   \<and> Status (set_cors_headers c) = Status c
   \<and> userID (set_cors_headers c) = userID c
   \<and> aborted (set_cors_headers c) = aborted c
   \<and> Header (set_cors_headers c) =
       (Header c)(''Access-Control-Allow-Origin'' \<mapsto> [''http://localhost:3000''],
                  ''Access-Control-Allow-Credentials'' \<mapsto> [''true''],
                  ''Access-Control-Allow-Headers'' \<mapsto> [''Content-Type, Content-Length, Accept-Encoding, X-CSRF-Token, Authorization, accept, origin, Cache-Control, X-Requested-With''],
                  ''Access-Control-Allow-Methods'' \<mapsto> [''POST, PATCH, GET, PUT, DELETE, OPTIONS''])"
  by (simp add: CORS_def AbortWithStatus_def Let_def) (simp add: set_cors_headers_def Header_Set_def)

theorem CORS_options_aborts_others_pass_witness:
  "Status (run_handlers [CORS, example_handler] (example_request ''OPTIONS'' Map.empty)) = 204
   \<and> aborted (run_handlers [CORS, example_handler] (example_request ''OPTIONS'' Map.empty))
   \<and> run_handlers [CORS, example_handler] (example_request ''GET'' Map.empty) =
       run_handlers [example_handler] (set_cors_headers (example_request ''GET'' Map.empty))
   \<and> Header (set_cors_headers (example_request ''GET'' Map.empty)) ''Access-Control-Allow-Origin''
       = Some [''http://localhost:3000'']"
proof -
  let ?opt = "example_request ''OPTIONS'' Map.empty"
  let ?get = "example_request ''GET'' Map.empty"
  have opt: "\<not> aborted ?opt \<and> Method (Request ?opt) = ''OPTIONS''"
    by (simp add: example_request_def)
  have get: "\<not> aborted ?get \<and> Method (Request ?get) \<noteq> ''OPTIONS''"
    by (simp add: example_request_def)
  note on_opt = CORS_options_aborts_others_pass [where c = ?opt and rest = "[example_handler]"]
  note on_get = CORS_options_aborts_others_pass [where c = ?get and rest = "[example_handler]"]
  from on_opt opt have "Status (run_handlers [CORS, example_handler] ?opt) = 204"
    and "aborted (run_handlers [CORS, example_handler] ?opt)"
    by blast+
  moreover from on_get get have "run_handlers [CORS, example_handler] ?get =
      run_handlers [example_handler] (set_cors_headers ?get)"
    by blast
  moreover from on_get have "Header (set_cors_headers ?get) ''Access-Control-Allow-Origin''
      = Some [''http://localhost:3000'']"
    by simp
  ultimately show ?thesis by blast
qed

section \<open>The routes of the live group\<close>

text \<open>
  C5. On a router whose root group has base path \<open>/\<close>, \<open>setupLiveClassRoutes\<close> adds four
  routes under \<open>/api/gin/live\<close>, and the chain of each is the router's middleware, then
  the token check, then the route's handler. A chain that starts at the token check, on a
  request whose credential does not resolve to a caller identity, ends there with status
  401 (Unauthorized), whatever the handler is; with a credential that resolves, the handler
  runs with the caller's identity set.
\<close>

theorem live_routes_behind_token_check:
  "(basePath (root router) = ''/'' \<longrightarrow>
     trees (setupLiveClassRoutes router ctrl jwt) = trees router @
       [\<lparr>route_method = ''POST'', route_path = ''/api/gin/live/create-room'',
         route_chain = Handlers (root router) @ [TokenAuthMiddleware jwt, CreateRoomHandler ctrl]\<rparr>,
        \<lparr>route_method = ''GET'', route_path = ''/api/gin/live/start-screen-share/:roomID/:userID'',
         route_chain = Handlers (root router) @ [TokenAuthMiddleware jwt, StartScreenShareHandler ctrl]\<rparr>,
        \<lparr>route_method = ''GET'', route_path = ''/api/gin/live/stop-screen-share/:roomID/:userID'',
         route_chain = Handlers (root router) @ [TokenAuthMiddleware jwt, StopScreenShareHandler ctrl]\<rparr>,
        \<lparr>route_method = ''GET'', route_path = ''/api/gin/live/view-screen-share/:roomID'',
         route_chain = Handlers (root router) @ [TokenAuthMiddleware jwt, ViewScreenShareHandler ctrl]\<rparr>])
   \<and> (\<not> aborted c \<and> caller_identity jwt c = None \<longrightarrow>
        run_handlers [TokenAuthMiddleware jwt, h] c = AbortWithStatus (status_code Unauthorized) c
        \<and> Status (run_handlers [TokenAuthMiddleware jwt, h] c) = 401)
   \<and> (\<not> aborted c \<and> caller_identity jwt c = Some uid \<longrightarrow>
        run_handlers [TokenAuthMiddleware jwt, h] c = run_handlers [h] (c\<lparr>userID := Some uid\<rparr>))"
  by (simp add: setupLiveClassRoutes_def Let_def handle_def Use_def Group_def joinPaths_def
      drop_last_slash_def TokenAuthMiddleware_def status_code_def AbortWithStatus_def)

theorem live_routes_behind_token_check_witness:
  "map route_path (trees (setupLiveClassRoutes example_router example_controller example_jwtService)) =
     [''/api/gin/live/create-room'', ''/api/gin/live/start-screen-share/:roomID/:userID'',
      ''/api/gin/live/stop-screen-share/:roomID/:userID'', ''/api/gin/live/view-screen-share/:roomID'']
   \<and> map route_chain (trees (setupLiveClassRoutes example_router example_controller example_jwtService)) =
       [[CORS, TokenAuthMiddleware example_jwtService, example_handler],
        [CORS, TokenAuthMiddleware example_jwtService, example_handler],
        [CORS, TokenAuthMiddleware example_jwtService, example_handler],
        [CORS, TokenAuthMiddleware example_jwtService, example_handler]]
   \<and> run_handlers [TokenAuthMiddleware example_jwtService, example_handler]
        (example_request ''GET'' Map.empty)
       = AbortWithStatus (status_code Unauthorized) (example_request ''GET'' Map.empty)
   \<and> run_handlers [TokenAuthMiddleware example_jwtService, example_handler]
        (example_request ''GET'' [''Authorization'' \<mapsto> ''Bearer expired-token''])
       = AbortWithStatus (status_code Unauthorized)
           (example_request ''GET'' [''Authorization'' \<mapsto> ''Bearer expired-token''])
   \<and> run_handlers [TokenAuthMiddleware example_jwtService, example_handler]
        (example_request ''GET'' [''Authorization'' \<mapsto> ''Bearer valid-token''])
       = run_handlers [example_handler]
           ((example_request ''GET'' [''Authorization'' \<mapsto> ''Bearer valid-token''])\<lparr>userID := Some 7\<rparr>)"
proof -
  let ?none = "example_request ''GET'' Map.empty"
  let ?bad = "example_request ''GET'' [''Authorization'' \<mapsto> ''Bearer expired-token'']"
  let ?good = "example_request ''GET'' [''Authorization'' \<mapsto> ''Bearer valid-token'']"
  have base: "basePath (root example_router) = ''/''"
    by (simp add: example_router_def)
  have none: "\<not> aborted ?none \<and> caller_identity example_jwtService ?none = None"
    by (simp add: example_request_def caller_identity_def bearer_token_def)
  have bad: "\<not> aborted ?bad \<and> caller_identity example_jwtService ?bad = None"
    by (simp add: example_request_def caller_identity_def bearer_token_def example_jwtService_def)
  have good: "\<not> aborted ?good \<and> caller_identity example_jwtService ?good = Some 7"
    by (simp add: example_request_def caller_identity_def bearer_token_def example_jwtService_def)
  note on_none = live_routes_behind_token_check [where router = example_router
      and ctrl = example_controller and jwt = example_jwtService and c = ?none and h = example_handler]
  note on_bad = live_routes_behind_token_check [where jwt = example_jwtService and c = ?bad
      and h = example_handler]
  note on_good = live_routes_behind_token_check [where jwt = example_jwtService and c = ?good
      and h = example_handler and uid = 7]
  from on_none base have routes:
    "trees (setupLiveClassRoutes example_router example_controller example_jwtService) =
       trees example_router @
       [\<lparr>route_method = ''POST'', route_path = ''/api/gin/live/create-room'',
         route_chain = Handlers (root example_router) @
           [TokenAuthMiddleware example_jwtService, CreateRoomHandler example_controller]\<rparr>,
        \<lparr>route_method = ''GET'', route_path = ''/api/gin/live/start-screen-share/:roomID/:userID'',
         route_chain = Handlers (root example_router) @
           [TokenAuthMiddleware example_jwtService, StartScreenShareHandler example_controller]\<rparr>,
        \<lparr>route_method = ''GET'', route_path = ''/api/gin/live/stop-screen-share/:roomID/:userID'',
         route_chain = Handlers (root example_router) @
           [TokenAuthMiddleware example_jwtService, StopScreenShareHandler example_controller]\<rparr>,
        \<lparr>route_method = ''GET'', route_path = ''/api/gin/live/view-screen-share/:roomID'',
         route_chain = Handlers (root example_router) @
           [TokenAuthMiddleware example_jwtService, ViewScreenShareHandler example_controller]\<rparr>]"
    by blast
  have "map route_path (trees (setupLiveClassRoutes example_router example_controller example_jwtService)) =
     [''/api/gin/live/create-room'', ''/api/gin/live/start-screen-share/:roomID/:userID'',
      ''/api/gin/live/stop-screen-share/:roomID/:userID'', ''/api/gin/live/view-screen-share/:roomID'']"
    by (simp add: routes) (simp add: example_router_def)
  moreover have "map route_chain (trees (setupLiveClassRoutes example_router example_controller example_jwtService)) =
       [[CORS, TokenAuthMiddleware example_jwtService, example_handler],
        [CORS, TokenAuthMiddleware example_jwtService, example_handler],
        [CORS, TokenAuthMiddleware example_jwtService, example_handler],
        [CORS, TokenAuthMiddleware example_jwtService, example_handler]]"
    by (simp add: routes) (simp add: example_router_def example_controller_def)
  moreover from on_none none have "run_handlers [TokenAuthMiddleware example_jwtService, example_handler] ?none
       = AbortWithStatus (status_code Unauthorized) ?none"
    by blast
  moreover from on_bad bad have "run_handlers [TokenAuthMiddleware example_jwtService, example_handler] ?bad
       = AbortWithStatus (status_code Unauthorized) ?bad"
    by blast
  moreover from on_good good have "run_handlers [TokenAuthMiddleware example_jwtService, example_handler] ?good
       = run_handlers [example_handler] (?good\<lparr>userID := Some 7\<rparr>)"
    by blast
  ultimately show ?thesis by blast
qed

section \<open>The environment check at start-up\<close>

lemma range_requiredVars_fatal:
  "v \<in> set vs \<Longrightarrow> Getenv (environ p) v = [] \<Longrightarrow> state (range_requiredVars vs p) = Exited 1"
  by (induction vs) (auto simp: log_Fatalf_def)

lemma range_requiredVars_ok:
  "list_all (\<lambda>v. Getenv (environ p) v \<noteq> []) vs \<Longrightarrow> range_requiredVars vs p = p"
  by (induction vs) auto

lemma environ_log_Println [simp]: "environ (log_Println l p) = environ p"
  by (simp add: log_Println_def)

lemma state_log_Println [simp]: "state (log_Println l p) = state p"
  by (simp add: log_Println_def)

lemma ensureEnvVariables_fatal:
  assumes "v \<in> set requiredVars"
    and "Getenv (environ (snd (godotenv_Load dotenv p))) v = []"
  shows "state (ensureEnvVariables dotenv p) = Exited 1"
proof (cases dotenv)
  case None
  with assms show ?thesis
    by (simp add: ensureEnvVariables_def godotenv_Load_def range_requiredVars_fatal)
next
  case (Some vars)
  with assms show ?thesis
    by (simp add: ensureEnvVariables_def godotenv_Load_def range_requiredVars_fatal)
qed

lemma and_then_Exited: "state p = Exited n \<Longrightarrow> and_then p f = p"
  by (simp add: and_then_def)

lemma and_then_Starting: "state p = Starting \<Longrightarrow> and_then p f = f p"
  by (simp add: and_then_def)

lemma main_after_fatal_env:
  "state p = Starting \<Longrightarrow> state (ensureEnvVariables (dotenv_file inp) p) = Exited n \<Longrightarrow>
   main inp p = ensureEnvVariables (dotenv_file inp) p"
  by (simp add: main_def and_then_Starting and_then_Exited)

lemma Getenv_empty: "(Getenv e v = []) = (e v = None \<or> e v = Some [])"
  by (simp add: Getenv_def split: option.splits)

text \<open>
  C10. When one of the five required variables reads as empty at the check (after the
  attempt to load \<^verbatim>\<open>.env\<close>), \<open>main\<close> ends with exit status 1 and never reaches the state in
  which requests are served; in particular so when \<^verbatim>\<open>.env\<close> is missing and the variable is
  unset or empty in the environment. When \<^verbatim>\<open>.env\<close> is missing and the five variables are
  set, the check only adds one line to the log, and with the database and Redis reachable
  \<open>main\<close> goes on to serve.
\<close>

theorem missing_required_variable_is_fatal:
  "(state p = Starting \<and> v \<in> set requiredVars
      \<and> Getenv (environ (snd (godotenv_Load (dotenv_file inp) p))) v = []
    \<longrightarrow> state (main inp p) = Exited 1)
   \<and> (state p = Starting \<and> v \<in> set requiredVars \<and> dotenv_file inp = None
      \<and> (environ p v = None \<or> environ p v = Some [])
    \<longrightarrow> state (main inp p) = Exited 1)
   \<and> (state p = Starting \<and> list_all (\<lambda>v. Getenv (environ p) v \<noteq> []) requiredVars
    \<longrightarrow> ensureEnvVariables None p = log_Println EnvFileNotLoaded p
        \<and> state (ensureEnvVariables None p) = Starting
        \<and> state (main \<lparr>dotenv_file = None, database_reachable = True, redis_reachable = True\<rparr> p)
            = Serving)"
proof (intro conjI impI)
  assume a: "state p = Starting \<and> v \<in> set requiredVars
      \<and> Getenv (environ (snd (godotenv_Load (dotenv_file inp) p))) v = []"
  then have "state (ensureEnvVariables (dotenv_file inp) p) = Exited 1"
    by (blast intro: ensureEnvVariables_fatal)
  with a show "state (main inp p) = Exited 1"
    by (simp add: main_after_fatal_env)
next
  assume a: "state p = Starting \<and> v \<in> set requiredVars \<and> dotenv_file inp = None
      \<and> (environ p v = None \<or> environ p v = Some [])"
  then have "Getenv (environ (snd (godotenv_Load (dotenv_file inp) p))) v = []"
    by (simp add: godotenv_Load_def Getenv_empty)
  with a have "state (ensureEnvVariables (dotenv_file inp) p) = Exited 1"
    by (blast intro: ensureEnvVariables_fatal)
  with a show "state (main inp p) = Exited 1"
    by (simp add: main_after_fatal_env)
next
  assume a: "state p = Starting \<and> list_all (\<lambda>v. Getenv (environ p) v \<noteq> []) requiredVars"
  then have "list_all (\<lambda>v. Getenv (environ (log_Println EnvFileNotLoaded p)) v \<noteq> []) requiredVars"
    by simp
  then show e: "ensureEnvVariables None p = log_Println EnvFileNotLoaded p"
    by (simp add: ensureEnvVariables_def godotenv_Load_def range_requiredVars_ok)
  from a show "state (ensureEnvVariables None p) = Starting"
    by (simp add: e)
  from a show "state (main \<lparr>dotenv_file = None, database_reachable = True, redis_reachable = True\<rparr> p)
      = Serving"
    by (simp add: main_def e and_then_def initializeDatabase_def initializeRedis_def startServer_def)
qed

theorem missing_required_variable_is_fatal_witness:
  "state (main no_dotenv (fresh_process env_without_port)) = Exited 1
   \<and> ensureEnvVariables None (fresh_process env_complete) =
       \<lparr>environ = env_complete, log_output = [EnvFileNotLoaded], state = Starting\<rparr>
   \<and> state (main no_dotenv (fresh_process env_complete)) = Serving"
proof -
  let ?p = "fresh_process env_without_port"
  let ?q = "fresh_process env_complete"
  have unset: "state ?p = Starting \<and> ''MYSQL_PORT'' \<in> set requiredVars
      \<and> dotenv_file no_dotenv = None
      \<and> (environ ?p ''MYSQL_PORT'' = None \<or> environ ?p ''MYSQL_PORT'' = Some [])"
    by (simp add: fresh_process_def requiredVars_def no_dotenv_def env_without_port_def)
  have allset: "state ?q = Starting \<and> list_all (\<lambda>v. Getenv (environ ?q) v \<noteq> []) requiredVars"
    by (simp add: fresh_process_def requiredVars_def env_complete_def env_without_port_def Getenv_def)
  note on_p = missing_required_variable_is_fatal [where p = ?p and v = "''MYSQL_PORT''"
      and inp = no_dotenv]
  note on_q = missing_required_variable_is_fatal [where p = ?q]
  from on_p unset have "state (main no_dotenv ?p) = Exited 1"
    by blast
  moreover from on_q allset have "ensureEnvVariables None ?q = log_Println EnvFileNotLoaded ?q"
    by blast
  then have "ensureEnvVariables None ?q =
      \<lparr>environ = env_complete, log_output = [EnvFileNotLoaded], state = Starting\<rparr>"
    by (simp add: log_Println_def fresh_process_def)
  moreover from on_q allset have "state (main no_dotenv ?q) = Serving"
    unfolding no_dotenv_def by blast
  ultimately show ?thesis by blast
qed

section \<open>Direct messages\<close>

lemma canonicalPairKey_commute: "canonicalPairKey a b = canonicalPairKey b a"
  by (simp add: canonicalPairKey_def min.commute max.commute)

lemma canonicalPairKey_eq:
  "(canonicalPairKey s r = canonicalPairKey a b) = ((s = a \<and> r = b) \<or> (s = b \<and> r = a))"
  by (auto simp: canonicalPairKey_def min_def max_def split: if_splits)

lemma GetDirectMessages_commute: "GetDirectMessages a b st = GetDirectMessages b a st"
  by (simp add: GetDirectMessages_def canonicalPairKey_commute)

lemma Get_after_Send:
  "GetDirectMessages a b (snd (SendDirectMessage s r msg now st)) =
     (if (s = a \<and> r = b) \<or> (s = b \<and> r = a)
      then GetDirectMessages a b st @ [fst (SendDirectMessage s r msg now st)]
      else GetDirectMessages a b st)"
proof (cases "canonicalPairKey s r = canonicalPairKey a b")
  case True
  then have "(s = a \<and> r = b) \<or> (s = b \<and> r = a)"
    by (simp add: canonicalPairKey_eq)
  with True show ?thesis
    by (simp add: SendDirectMessage_def GetDirectMessages_def Let_def)
next
  case False
  then have "\<not> ((s = a \<and> r = b) \<or> (s = b \<and> r = a))"
    by (simp add: canonicalPairKey_eq)
  moreover from False have "canonicalPairKey a b \<noteq> canonicalPairKey s r"
    by simp
  ultimately show ?thesis
    by (simp add: SendDirectMessage_def GetDirectMessages_def Let_def)
qed

lemma content_of_sent:
  "message_content (fst (SendDirectMessage s r msg now st)) = sent_content (s, r, msg, now)"
  by (simp add: SendDirectMessage_def Let_def message_content_def sent_content_def)

lemma send_all_log:
  "map message_content (GetDirectMessages a b (send_all h st)) =
     map message_content (GetDirectMessages a b st) @ map sent_content (filter (between a b) h)"
proof (induction h arbitrary: st)
  case Nil
  show ?case by simp
next
  case (Cons call h)
  obtain s r msg now where call: "call = (s, r, msg, now)"
    by (cases call) auto
  show ?case
    by (simp add: call Cons.IH Get_after_Send content_of_sent between_def)
qed

text \<open>
  C6. After any history of \<open>SendDirectMessage\<close> calls (between any users) on the empty
  store, \<open>GetDirectMessages a b\<close> and \<open>GetDirectMessages b a\<close> return the same sequence,
  and its messages are, in the order of sending, those of the calls between \<open>a\<close> and \<open>b\<close>
  in either direction.
\<close>

theorem direct_messages_symmetric_in_send_order:
  "GetDirectMessages a b (send_all h empty_store) = GetDirectMessages b a (send_all h empty_store)
   \<and> map message_content (GetDirectMessages a b (send_all h empty_store)) =
       map sent_content (filter (between a b) h)"
proof
  show "GetDirectMessages a b (send_all h empty_store) = GetDirectMessages b a (send_all h empty_store)"
    by (rule GetDirectMessages_commute)
  have "GetDirectMessages a b empty_store = []"
    by (simp add: GetDirectMessages_def empty_store_def)
  then show "map message_content (GetDirectMessages a b (send_all h empty_store)) =
       map sent_content (filter (between a b) h)"
    by (simp add: send_all_log)
qed

section \<open>The presenter of a live session\<close>

lemma presenters_card: "card (presenters reg room) \<le> 1"
  by (cases "presenterUserID (session reg room)") (simp_all add: presenters_def)

lemma Start_other:
  "presenterUserID (session reg room) = Some other \<Longrightarrow> other \<noteq> user \<Longrightarrow>
   StartScreenShare room user reg = Inl Conflict"
  by (simp add: StartScreenShare_def Let_def)

lemma Start_same:
  "presenterUserID (session reg room) = Some user \<Longrightarrow>
   StartScreenShare room user reg = Inr (reg(room \<mapsto> session reg room))"
  by (simp add: StartScreenShare_def Let_def)

lemma Start_idle:
  "presenterUserID (session reg room) = None \<Longrightarrow>
   StartScreenShare room user reg =
     Inr (reg(room \<mapsto> (session reg room)\<lparr>presenterUserID := Some user\<rparr>))"
  by (simp add: StartScreenShare_def Let_def)

lemma session_upd: "session (reg(room \<mapsto> s)) r = (if r = room then s else session reg r)"
  by (simp add: session_def)

lemma Start_success_presenter:
  "StartScreenShare room a reg = Inr reg_a \<Longrightarrow> presenterUserID (session reg_a room) = Some a"
  by (auto simp: StartScreenShare_def Let_def session_upd split: option.splits if_splits)

text \<open>
  C7. In every state reached from the empty registry by any calls, a session has at most
  one presenter. \<open>StartScreenShare room user\<close> fails with Conflict when another user is
  presenting; succeeds and leaves every session as it was when the same user is presenting;
  and otherwise succeeds with \<open>user\<close> as the presenter of \<open>room\<close>, the viewers and the
  other sessions unchanged. After a successful start by \<open>a\<close>, a start by another user
  fails with Conflict.
\<close>

theorem start_screen_share_single_presenter:
  "card (presenters (live_run history Map.empty) room) \<le> 1
   \<and> (presenterUserID (session reg room) = Some other \<and> other \<noteq> user \<longrightarrow>
        StartScreenShare room user reg = Inl Conflict)
   \<and> (presenterUserID (session reg room) = Some user \<longrightarrow>
        (\<exists>reg'. StartScreenShare room user reg = Inr reg'
           \<and> (\<forall>r. session reg' r = session reg r)))
   \<and> (presenterUserID (session reg room) = None \<longrightarrow>
        (\<exists>reg'. StartScreenShare room user reg = Inr reg'
           \<and> presenterUserID (session reg' room) = Some user
           \<and> viewers (session reg' room) = viewers (session reg room)
           \<and> (\<forall>r. r \<noteq> room \<longrightarrow> session reg' r = session reg r)))
   \<and> (StartScreenShare room a reg = Inr reg_a \<and> a \<noteq> b \<longrightarrow>
        StartScreenShare room b reg_a = Inl Conflict)"
proof (intro conjI impI)
  show "card (presenters (live_run history Map.empty) room) \<le> 1"
    by (rule presenters_card)
next
  assume "presenterUserID (session reg room) = Some other \<and> other \<noteq> user"
  then show "StartScreenShare room user reg = Inl Conflict"
    by (simp add: Start_other)
next
  assume "presenterUserID (session reg room) = Some user"
  then show "\<exists>reg'. StartScreenShare room user reg = Inr reg' \<and> (\<forall>r. session reg' r = session reg r)"
    by (simp add: Start_same session_upd)
next
  assume "presenterUserID (session reg room) = None"
  then show "\<exists>reg'. StartScreenShare room user reg = Inr reg'
           \<and> presenterUserID (session reg' room) = Some user
           \<and> viewers (session reg' room) = viewers (session reg room)
           \<and> (\<forall>r. r \<noteq> room \<longrightarrow> session reg' r = session reg r)"
    by (simp add: Start_idle session_upd)
next
  assume "StartScreenShare room a reg = Inr reg_a \<and> a \<noteq> b"
  then show "StartScreenShare room b reg_a = Inl Conflict"
    using Start_success_presenter [of room a reg reg_a] by (simp add: Start_other)
qed

theorem start_screen_share_single_presenter_witness:
  "StartScreenShare ''class_42'' 6 (presenting ''class_42'' 5) = Inl Conflict
   \<and> (\<exists>reg'. StartScreenShare ''class_42'' 5 (presenting ''class_42'' 5) = Inr reg'
        \<and> (\<forall>r. session reg' r = session (presenting ''class_42'' 5) r))
   \<and> (\<exists>reg'. StartScreenShare ''class_42'' 5 Map.empty = Inr reg'
        \<and> presenterUserID (session reg' ''class_42'') = Some 5)
   \<and> StartScreenShare ''class_42'' 5 Map.empty = Inr (presenting ''class_42'' 5)
   \<and> card (presenters (live_run [Start ''class_42'' 5, Start ''class_42'' 6] Map.empty) ''class_42'') \<le> 1"
proof -
  let ?reg = "presenting ''class_42'' 5"
  have five: "presenterUserID (session ?reg ''class_42'') = Some 5"
    by (simp add: presenting_def session_def)
  have idle: "presenterUserID (session Map.empty ''class_42'') = None"
    by (simp add: session_def Idle_def)
  have start: "StartScreenShare ''class_42'' 5 Map.empty = Inr ?reg"
    by (simp add: StartScreenShare_def session_def Idle_def presenting_def)
  note busy = start_screen_share_single_presenter [where reg = ?reg and room = "''class_42''"
      and other = 5 and user = 6]
  note same = start_screen_share_single_presenter [where reg = ?reg and room = "''class_42''"
      and user = 5]
  note free = start_screen_share_single_presenter [where reg = Map.empty and room = "''class_42''"
      and user = 5 and a = 5 and b = 6 and reg_a = ?reg
      and history = "[Start ''class_42'' 5, Start ''class_42'' 6]"]
  from busy five have "StartScreenShare ''class_42'' 6 ?reg = Inl Conflict"
    by simp
  moreover from same five have "\<exists>reg'. StartScreenShare ''class_42'' 5 ?reg = Inr reg'
        \<and> (\<forall>r. session reg' r = session ?reg r)"
    by blast
  moreover from free idle have "\<exists>reg'. StartScreenShare ''class_42'' 5 Map.empty = Inr reg'
        \<and> presenterUserID (session reg' ''class_42'') = Some 5"
    by blast
  moreover from free start have "StartScreenShare ''class_42'' 6 ?reg = Inl Conflict"
    by simp
  moreover from free
  have "card (presenters (live_run [Start ''class_42'' 5, Start ''class_42'' 6] Map.empty) ''class_42'') \<le> 1"
    by blast
  ultimately show ?thesis using start by blast
qed

end
